theory Spec2Isabelle
  imports Main "HOL-Library.AList"
begin

section \<open>Values shared by the services\<close>

text \<open>
  The server code is TypeScript.  Exceptions are values: a computation that may throw
  returns \<open>error + 'a\<close>, with \<open>Inl\<close> for the thrown error.
\<close>

datatype error = Error string

text \<open>
  Plain JSON data, for the values whose TypeScript type is \<^verbatim>\<open>any\<close> or is declared
  outside the sources: request bodies, the answer of the enqueue collaborator, analytics
  properties.  An object keeps its properties in order, as JavaScript does.
\<close>

datatype json =
    JNull
  | JBool bool
  | JNum int
  | JStr string
  | JArr "json list"
  | JObj "(string \<times> json) list"

type_synonym jsobj = "(string \<times> json) list"

text \<open>
  Modelled from the spec: the enumeration \<^verbatim>\<open>TaskState\<close> is imported from
  \<^verbatim>\<open>../generated/graphql\<close>, which is not part of the sources; the spec lists the
  states of a job as Pending, Running, Succeeded and Failed.
\<close>

datatype TaskState = Pending | Running | Succeeded | Failed

section \<open>The digest service (services/digest)\<close>

subsection \<open>Dates in JSON\<close>

text \<open>
  \<^verbatim>\<open>createdAt?: Date\<close> is the one field of a digest that JSON cannot carry as it is:
  \<^verbatim>\<open>JSON.stringify\<close> writes a \<^verbatim>\<open>Date\<close> as the string its \<^verbatim>\<open>toISOString\<close>
  gives, and \<^verbatim>\<open>JSON.parse\<close> returns that string.  The cast
  \<^verbatim>\<open>JSON.parse(digest) as Digest\<close> checks nothing, so at run time the field holds either
  a \<^verbatim>\<open>Date\<close> object (milliseconds since the epoch) or a string.  A \<^verbatim>\<open>Date\<close> that is
  not a valid time, which JSON writes as \<^verbatim>\<open>null\<close>, is left out.
\<close>

datatype date_value = DateObject int | DateString string

definition digit :: "int \<Rightarrow> char" where
  "digit n = ''0123456789'' ! nat (n mod 10)"

definition pad2 :: "int \<Rightarrow> string" where
  "pad2 n = [digit (n div 10), digit n]"

definition pad3 :: "int \<Rightarrow> string" where
  "pad3 n = [digit (n div 100), digit (n div 10), digit n]"

definition pad4 :: "int \<Rightarrow> string" where
  "pad4 n = [digit (n div 1000), digit (n div 100), digit (n div 10), digit n]"

definition pad6 :: "int \<Rightarrow> string" where
  "pad6 n = [digit (n div 100000), digit (n div 10000), digit (n div 1000),
             digit (n div 100), digit (n div 10), digit n]"

text \<open>
  The proleptic Gregorian date of a day number (days since 1970-01-01), computed over
  400-year eras that start on 1 March.  \<open>div\<close> and \<open>mod\<close> on \<open>int\<close> round down,
  so days before the epoch need no separate case.
\<close>

definition civilFromDays :: "int \<Rightarrow> int \<times> int \<times> int" where
  "civilFromDays days =
     (let z = days + 719468;
          era = z div 146097;
          doe = z mod 146097;
          yoe = (doe - doe div 1460 + doe div 36524 - doe div 146096) div 365;
          doy = doe - (365 * yoe + yoe div 4 - yoe div 100);
          mp = (5 * doy + 2) div 153;
          d = doy - (153 * mp + 2) div 5 + 1;
          m = (if mp < 10 then mp + 3 else mp - 9);
          y = yoe + era * 400 + (if m \<le> 2 then 1 else 0)
      in (y, m, d))"

text \<open>
  \<^verbatim>\<open>Date.prototype.toISOString\<close>: \<^verbatim>\<open>YYYY-MM-DDTHH:mm:ss.sssZ\<close> in UTC, the year
  with a sign and six digits outside 0..9999.
\<close>

definition toISOString :: "int \<Rightarrow> string" where
  "toISOString t =
     (let msOfDay = t mod 86400000;
          (y, m, d) = civilFromDays (t div 86400000);
          year = (if 0 \<le> y \<and> y \<le> 9999 then pad4 y
                  else (if y < 0 then ''-'' else ''+'') @ pad6 \<bar>y\<bar>)
      in year @ ''-'' @ pad2 m @ ''-'' @ pad2 d @ ''T''
           @ pad2 (msOfDay div 3600000) @ '':''
           @ pad2 (msOfDay div 60000 mod 60) @ '':''
           @ pad2 (msOfDay div 1000 mod 60) @ ''.''
           @ pad3 (msOfDay mod 1000) @ ''Z'')"

fun dateToJSON :: "date_value \<Rightarrow> date_value" where
  "dateToJSON (DateObject t) = DateString (toISOString t)"
| "dateToJSON (DateString s) = DateString s"

subsection \<open>The record\<close>

text \<open>
  \<^verbatim>\<open>SpeechFile\<close> is declared in the package \<^verbatim>\<open>@omnivore/text-to-speech-handler\<close>,
  outside the sources; the digest service only passes it through, so it stays opaque here.
  \<^verbatim>\<open>wordCount: number\<close> is a count, an integer.  An optional field is \<open>None\<close> when
  absent.
\<close>

typedecl SpeechFile

record Chapter =
  title :: string
  id' :: string
  url :: string
  wordCount :: int
  thumbnail :: "string option"

record Digest =
  id' :: string
  jobState :: TaskState
  createdAt :: "date_value option"
  description :: "string option"
  byline :: "string option"
  url :: "string option"
  title :: "string option"
  content :: "string option"
  chapters :: "Chapter list option"
  urlsToAudio :: "string list option"
  speechFiles :: "SpeechFile list option"

subsection \<open>Redis\<close>

text \<open>
  The Redis client, as far as the service uses it: string values under string keys, each
  with the second at which it expires (\<^verbatim>\<open>SET key value EX seconds\<close>), read against a
  clock that counts seconds.  The text \<^verbatim>\<open>JSON.stringify(digest)\<close> is represented by
  the digest it was produced from; \<^verbatim>\<open>JSON.parse\<close> of that text gives the digest as
  JSON carries it, dates as strings.
\<close>

datatype redis_string = JSON_stringify Digest

fun JSON_parse :: "redis_string \<Rightarrow> Digest" where
  "JSON_parse (JSON_stringify d) = d\<lparr>createdAt := map_option dateToJSON (createdAt d)\<rparr>"

type_synonym redis = "string \<rightharpoonup> redis_string \<times> nat"

definition redis_get :: "redis \<Rightarrow> nat \<Rightarrow> string \<Rightarrow> redis_string option" where
  "redis_get r now key =
     (case r key of
        None \<Rightarrow> None
      | Some (v, expiresAt) \<Rightarrow> if now < expiresAt then Some v else None)"

definition redis_set_EX :: "redis \<Rightarrow> nat \<Rightarrow> string \<Rightarrow> redis_string \<Rightarrow> nat \<Rightarrow> redis" where
  "redis_set_EX r now key v seconds = r(key \<mapsto> (v, now + seconds))"

text \<open>
  What the digest service reads and writes: \<^verbatim>\<open>redisDataSource.redisClient\<close>, which
  may be undefined (the code reaches it through \<^verbatim>\<open>?.\<close>), and the time.
\<close>

record data_source =
  redisClient :: "redis option"
  clock :: nat

definition digestKey :: "string \<Rightarrow> string" where
  "digestKey userId = ''digest:'' @ userId"

definition getDigest :: "data_source \<Rightarrow> string \<Rightarrow> Digest option" where
  "getDigest ds userId =
     (case redisClient ds of
        None \<Rightarrow> None
      | Some r \<Rightarrow>
          (case redis_get r (clock ds) (digestKey userId) of
             None \<Rightarrow> None
           | Some digest \<Rightarrow> Some (JSON_parse digest)))"

definition writeDigest :: "string \<Rightarrow> Digest \<Rightarrow> data_source \<Rightarrow> error + data_source" where
  "writeDigest userId digest ds =
     (case redisClient ds of
        None \<Rightarrow> Inl (Error (''Error while writing digest to redis: '' @ userId))
      | Some r \<Rightarrow>
          Inr (ds\<lparr>redisClient :=
                  Some (redis_set_EX r (clock ds) (digestKey userId) (JSON_stringify digest)
                          (60 * 60 * 24 * 7))\<rparr>))"

text \<open>Time passing with no call in between.\<close>

definition elapse :: "nat \<Rightarrow> data_source \<Rightarrow> data_source" where
  "elapse seconds ds = ds\<lparr>clock := clock ds + seconds\<rparr>"

section \<open>The digest router (POST /v1, GET /v1, POST /v1/feedback)\<close>

subsection \<open>Requests, responses and collaborators\<close>

text \<open>
  A request, as far as the handlers read it: the token \<^verbatim>\<open>getTokenByRequest\<close> finds in
  it (none when the request carries none) and the parsed JSON body, an object.
\<close>

record request =
  token :: "string option"
  body :: jsobj

definition getTokenByRequest :: "request \<Rightarrow> string option" where
  "getTokenByRequest req = token req"

record Claims =
  uid :: string

datatype FeatureName = AIDigest

text \<open>
  \<^verbatim>\<open>res.sendStatus(code)\<close> sends the status with its standard text and no JSON;
  \<^verbatim>\<open>res.status(code).send(x)\<close> and \<^verbatim>\<open>res.send(x)\<close> (status 200) send a JSON body.
  The three bodies the router sends: the object literal \<^verbatim>\<open>{ jobId, jobState }\<close>, a
  digest, and the answer of the enqueue collaborator.
\<close>

datatype response_body =
    JobStatus string TaskState
  | DigestBody Digest
  | Json json

datatype response = SendStatus nat | Send nat response_body

record capture_event =
  distinctId :: string
  event :: string
  properties :: jsobj

text \<open>
  The collaborators the router imports, none of them part of the sources.  Each is a
  parameter; one that is awaited inside a \<^verbatim>\<open>try\<close> may throw.  The entities a lookup
  returns are only tested for null, so their types are left open.
  \<^verbatim>\<open>enqueueCreateDigest\<close> may read and write the data source.
  \<^verbatim>\<open>analytics.capture\<close> is called inside the \<^verbatim>\<open>try\<close> and not awaited: the handler
  sees whether the call returns or throws, and nothing of what becomes of the event
  afterwards.
\<close>

record ('user, 'feature) services =
  getClaimsByToken :: "string option \<Rightarrow> error + Claims option"
  findActiveUser :: "string \<Rightarrow> error + 'user option"
  findGrantedFeatureByName :: "FeatureName \<Rightarrow> string \<Rightarrow> error + 'feature option"
  enqueueCreateDigest ::
    "jsobj \<Rightarrow> json option \<Rightarrow> data_source \<Rightarrow> (error + json) \<times> data_source"
  capture :: "capture_event \<Rightarrow> error + unit"
  apiEnv :: string

text \<open>
  The state a handler runs in: the data source, and the calls made so far to the two
  collaborators with an effect, in order.
\<close>

record world =
  store :: data_source
  enqueued :: "(jsobj \<times> json option) list"
  captured :: "capture_event list"

definition callEnqueueCreateDigest ::
  "('user, 'feature) services \<Rightarrow> jsobj \<Rightarrow> json option \<Rightarrow> world \<Rightarrow> (error + json) \<times> world" where
  "callEnqueueCreateDigest sv job schedule w =
     (case enqueueCreateDigest sv job schedule (store w) of
        (result, ds) \<Rightarrow> (result, w\<lparr>store := ds, enqueued := enqueued w @ [(job, schedule)]\<rparr>))"

definition analytics_capture ::
  "('user, 'feature) services \<Rightarrow> capture_event \<Rightarrow> world \<Rightarrow> (error + unit) \<times> world" where
  "analytics_capture sv e w = (capture sv e, w\<lparr>captured := captured w @ [e]\<rparr>)"

subsection \<open>JavaScript objects\<close>

text \<open>
  \<^verbatim>\<open>'k' in data\<close>, \<^verbatim>\<open>data.k\<close> (\<open>map_of data k\<close>, \<open>None\<close> for undefined),
  \<^verbatim>\<open>delete data.k\<close> (\<open>AList.delete\<close>), an assignment to a property
  (\<open>AList.update\<close>: in place when the property exists, at the end otherwise) and the
  spread \<^verbatim>\<open>{ ...target, ...source }\<close>, which assigns the properties of the source in
  order.
\<close>

definition has_property :: "string \<Rightarrow> jsobj \<Rightarrow> bool" where
  "has_property k data = (k \<in> set (map fst data))"

definition spread :: "jsobj \<Rightarrow> jsobj \<Rightarrow> jsobj" where
  "spread target source = fold (\<lambda>(k, v). AList.update k v) source target"

subsection \<open>The handlers\<close>

definition isFeedback :: "jsobj \<Rightarrow> bool" where
  "isFeedback data =
     (has_property ''digestRating'' data \<and>
      has_property ''rankingRating'' data \<and>
      has_property ''summaryRating'' data \<and>
      has_property ''voiceRating'' data \<and>
      has_property ''musicRating'' data)"

text \<open>
  \<^verbatim>\<open>router.post('/v1', ...)\<close>.  \<open>uuid\<close> is the value \<^verbatim>\<open>uuid()\<close> returns in this call.
\<close>

definition post_v1 ::
  "('user, 'feature) services \<Rightarrow> request \<Rightarrow> string \<Rightarrow> world \<Rightarrow> response \<times> world" where
  "post_v1 sv req uuid w =
     (case getClaimsByToken sv (getTokenByRequest req) of
        Inl e \<Rightarrow> (SendStatus 401, w)
      | Inr None \<Rightarrow> (SendStatus 401, w)
      | Inr (Some claims) \<Rightarrow>
          (let userId = uid claims in
           case findActiveUser sv userId of
             Inl e \<Rightarrow> (SendStatus 500, w)
           | Inr None \<Rightarrow> (SendStatus 401, w)
           | Inr (Some user) \<Rightarrow>
               (case findGrantedFeatureByName sv AIDigest userId of
                  Inl e \<Rightarrow> (SendStatus 500, w)
                | Inr None \<Rightarrow> (SendStatus 403, w)
                | Inr (Some feature) \<Rightarrow>
                    (let data = body req;
                         digest = getDigest (store w) userId
                     in if map_option jobState digest = Some Running
                        then (SendStatus 202, w)
                        else
                          (case callEnqueueCreateDigest sv
                                  (spread [(''id'', JStr uuid), (''userId'', JStr userId)] data)
                                  (map_of data ''schedule'') w of
                             (Inl e, w') \<Rightarrow> (SendStatus 500, w')
                           | (Inr result, w') \<Rightarrow> (Send 201 (Json result), w'))))))"

text \<open>\<^verbatim>\<open>router.get('/v1', ...)\<close>\<close>

definition get_v1 ::
  "('user, 'feature) services \<Rightarrow> request \<Rightarrow> world \<Rightarrow> response \<times> world" where
  "get_v1 sv req w =
     (case getClaimsByToken sv (getTokenByRequest req) of
        Inl e \<Rightarrow> (SendStatus 401, w)
      | Inr None \<Rightarrow> (SendStatus 401, w)
      | Inr (Some claims) \<Rightarrow>
          (let userId = uid claims in
           case findActiveUser sv userId of
             Inl e \<Rightarrow> (SendStatus 500, w)
           | Inr None \<Rightarrow> (SendStatus 401, w)
           | Inr (Some user) \<Rightarrow>
               (case findGrantedFeatureByName sv AIDigest userId of
                  Inl e \<Rightarrow> (SendStatus 500, w)
                | Inr None \<Rightarrow> (SendStatus 403, w)
                | Inr (Some feature) \<Rightarrow>
                    (case getDigest (store w) userId of
                       None \<Rightarrow> (SendStatus 404, w)
                     | Some digest \<Rightarrow>
                         if jobState digest = Running
                         then (Send 200 (JobStatus (Digest.id' digest) (jobState digest)), w)
                         else (Send 200 (DigestBody digest), w)))))"

text \<open>
  The argument of \<^verbatim>\<open>analytics.capture\<close> in the feedback handler, from the user id, the
  feedback left after \<^verbatim>\<open>delete feedback.comment\<close> and \<^verbatim>\<open>env.server.apiEnv\<close>.
\<close>

definition digest_feedback :: "string \<Rightarrow> jsobj \<Rightarrow> string \<Rightarrow> capture_event" where
  "digest_feedback userId feedback apiEnv_value =
     \<lparr>distinctId = userId,
      event = ''digest_feedback'',
      properties = AList.update ''env'' (JStr apiEnv_value) (spread [] feedback)\<rparr>"

text \<open>
  \<^verbatim>\<open>router.post('/v1/feedback', ...)\<close>.  An error thrown by \<^verbatim>\<open>analytics.capture\<close> is
  caught with the others and answered 500.
\<close>

definition post_v1_feedback ::
  "('user, 'feature) services \<Rightarrow> request \<Rightarrow> world \<Rightarrow> response \<times> world" where
  "post_v1_feedback sv req w =
     (case getClaimsByToken sv (getTokenByRequest req) of
        Inl e \<Rightarrow> (SendStatus 401, w)
      | Inr None \<Rightarrow> (SendStatus 401, w)
      | Inr (Some claims) \<Rightarrow>
          (let userId = uid claims in
           case findActiveUser sv userId of
             Inl e \<Rightarrow> (SendStatus 500, w)
           | Inr None \<Rightarrow> (SendStatus 401, w)
           | Inr (Some user) \<Rightarrow>
               (case findGrantedFeatureByName sv AIDigest userId of
                  Inl e \<Rightarrow> (SendStatus 500, w)
                | Inr None \<Rightarrow> (SendStatus 403, w)
                | Inr (Some feature) \<Rightarrow>
                    if \<not> isFeedback (body req) then (SendStatus 400, w)
                    else
                      (let feedback = AList.delete ''comment'' (body req)
                       in case analytics_capture sv
                                 (digest_feedback userId feedback (apiEnv sv)) w of
                            (Inl e, w') \<Rightarrow> (SendStatus 500, w')
                          | (Inr returned, w') \<Rightarrow> (SendStatus 200, w')))))"

text \<open>The five rating fields the spec requires of a feedback payload.\<close>

definition requiredRatings :: "string list" where
  "requiredRatings =
     [''digestRating'', ''rankingRating'', ''summaryRating'', ''voiceRating'', ''musicRating'']"

section \<open>The usage limit plugin (apollo.ts)\<close>

text \<open>
  What the plugin reads of a GraphQL request: \<^verbatim>\<open>contextValue.request.query\<close> and
  \<^verbatim>\<open>contextValue.context.claims\<close>; and of the response: \<^verbatim>\<open>response.errors\<close> and
  \<^verbatim>\<open>response.data\<close>.
\<close>

record graphql_request =
  query :: "string option"
  claims :: "Claims option"

record graphql_response =
  errors :: "error list option"
  data :: "json option"

text \<open>
  JavaScript tests: a string is true unless empty; of JSON values, \<^verbatim>\<open>null\<close>,
  \<^verbatim>\<open>false\<close>, \<^verbatim>\<open>0\<close> and the empty string are false, and every array and object is
  true, the empty ones too.  \<open>None\<close> is \<^verbatim>\<open>undefined\<close>.
\<close>

fun truthy :: "json option \<Rightarrow> bool" where
  "truthy None = False"
| "truthy (Some JNull) = False"
| "truthy (Some (JBool b)) = b"
| "truthy (Some (JNum n)) = (n \<noteq> 0)"
| "truthy (Some (JStr s)) = (s \<noteq> [])"
| "truthy (Some (JArr xs)) = True"
| "truthy (Some (JObj ps)) = True"

text \<open>\<^verbatim>\<open>x?.k\<close>: undefined when \<open>x\<close> is undefined or null, the property otherwise.\<close>

fun optional_property :: "json option \<Rightarrow> string \<Rightarrow> json option" where
  "optional_property (Some (JObj ps)) k = map_of ps k"
| "optional_property x k = None"

text \<open>\<^verbatim>\<open>String.prototype.includes\<close>\<close>

fun includes' :: "string \<Rightarrow> string \<Rightarrow> bool" where
  "includes' [] search = (search = [])"
| "includes' (c # cs) search = (take (length search) (c # cs) = search \<or> includes' cs search)"

text \<open>
  Modelled from the spec: \<^verbatim>\<open>countDailyServiceUsage\<close> and \<^verbatim>\<open>createServiceUsage\<close> are
  imported from \<^verbatim>\<open>./services/service_usage\<close>, which is not part of the sources.  The
  spec describes the Usage Ledger as a counter keyed by user, action and calendar day,
  incremented by RecordUsage and starting anew when the day rolls over.
\<close>

record usage_ledger =
  serviceUsage :: "string \<times> string \<times> nat \<Rightarrow> nat"
  today :: nat

definition countDailyServiceUsage :: "usage_ledger \<Rightarrow> string \<Rightarrow> string \<Rightarrow> nat" where
  "countDailyServiceUsage l userId action = serviceUsage l (userId, action, today l)"

definition createServiceUsage :: "string \<Rightarrow> string \<Rightarrow> usage_ledger \<Rightarrow> usage_ledger" where
  "createServiceUsage userId action l =
     l\<lparr>serviceUsage := (serviceUsage l)
          ((userId, action, today l) := Suc (serviceUsage l (userId, action, today l)))\<rparr>"

definition MAX_SENT_EMAIL_PER_DAY :: nat where
  "MAX_SENT_EMAIL_PER_DAY = 3"

definition action :: string where
  "action = ''replyToEmail''"

text \<open>
  \<^verbatim>\<open>requestDidStart\<close>.  \<open>userId\<close> is \<^verbatim>\<open>contextValue.context.claims?.uid\<close>,
  undefined without claims; \<^verbatim>\<open>userId && query?.includes(action)\<close> holds for a user id
  that is not empty and a query text that contains the name of the action.  The hook
  throws when the user has reached the limit.
\<close>

definition requestDidStart :: "graphql_request \<Rightarrow> usage_ledger \<Rightarrow> error + unit" where
  "requestDidStart request l =
     (let userId = map_option uid (claims request)
      in case userId of
           None \<Rightarrow> Inr ()
         | Some u \<Rightarrow>
             if u \<noteq> [] \<and> (case query request of None \<Rightarrow> False | Some q \<Rightarrow> includes' q action)
             then
               (let emailSentCount = countDailyServiceUsage l u action
                in if emailSentCount \<ge> MAX_SENT_EMAIL_PER_DAY
                   then Inl (Error ''You have reached the daily email limit'')
                   else Inr ())
             else Inr ())"

text \<open>
  \<^verbatim>\<open>willSendResponse\<close>, the hook \<^verbatim>\<open>requestDidStart\<close> returns; \<open>userId\<close> and the
  query are the ones of \<^verbatim>\<open>requestDidStart\<close>.
\<close>

definition willSendResponse ::
  "graphql_request \<Rightarrow> graphql_response \<Rightarrow> usage_ledger \<Rightarrow> usage_ledger" where
  "willSendResponse request response l =
     (let userId = map_option uid (claims request)
      in case userId of
           None \<Rightarrow> l
         | Some u \<Rightarrow>
             if u \<noteq> [] \<and>
                (case query request of None \<Rightarrow> False | Some q \<Rightarrow> includes' q action) \<and>
                errors response = None \<and>
                \<not> truthy (optional_property
                            (optional_property (data response) ''replyToEmail'')
                            ''errorCodes'')
             then createServiceUsage u action l
             else l)"

text \<open>
  The request pipeline of Apollo Server around the plugin: \<^verbatim>\<open>requestDidStart\<close>
  runs first, and an error it throws ends the request; otherwise the operation is
  executed (\<open>execute\<close>, the resolvers, a parameter) and \<^verbatim>\<open>willSendResponse\<close> runs on
  its response.  \<open>executed\<close> lists the requests whose operation ran.
\<close>

record api_state =
  ledger :: usage_ledger
  executed :: "graphql_request list"

definition handle_request ::
  "(graphql_request \<Rightarrow> graphql_response) \<Rightarrow> graphql_request \<Rightarrow> api_state
     \<Rightarrow> (error + graphql_response) \<times> api_state" where
  "handle_request execute request st =
     (case requestDidStart request (ledger st) of
        Inl e \<Rightarrow> (Inl e, st)
      | Inr hooks \<Rightarrow>
          (let response = execute request
           in (Inr response,
               \<lparr>ledger = willSendResponse request response (ledger st),
                executed = executed st @ [request]\<rparr>)))"

section \<open>The mobile client (ViewerFetcher.swift)\<close>

text \<open>The account as the server reports it to the \<^verbatim>\<open>me\<close> query.\<close>

record Feature =
  name :: string
  enabled :: bool

record User =
  id' :: string
  username :: string
  name :: string
  pictureUrl :: "string option"
  intercomHash :: "string option"
  featureList :: "Feature list option"

record ViewerInternal =
  userID :: string
  username :: string
  name :: string
  profileImageURL :: "string option"
  intercomHash :: "string option"
  digestEnabled :: "bool option"

text \<open>The managed object \<^verbatim>\<open>Viewer\<close> of the local store.\<close>

record Viewer =
  userID :: string
  username :: string
  name :: string
  profileImageURL :: "string option"
  digestEnabled :: bool

datatype BasicError = message string

text \<open>
  The device: the user id kept in \<^verbatim>\<open>UserDefaults\<close>, the viewers saved in the store,
  and the calls made to Intercom and to the event tracker.
\<close>

record device =
  userIdKey :: "string option"
  viewers :: "Viewer list"
  registeredIntercomUsers :: "string list"
  intercomUserHashes :: "string list"
  registeredUsers :: "string list"

text \<open>
  The selection \<^verbatim>\<open>fetchViewer\<close> builds a \<^verbatim>\<open>ViewerInternal\<close> with.  The computation of
  \<^verbatim>\<open>digestEnabled\<close> from the feature list is commented out in the source; the field is
  the constant \<^verbatim>\<open>true\<close>.
\<close>

definition selection :: "User \<Rightarrow> ViewerInternal" where
  "selection u =
     \<lparr>ViewerInternal.userID = User.id' u,
      ViewerInternal.username = User.username u,
      ViewerInternal.name = User.name u,
      ViewerInternal.profileImageURL = pictureUrl u,
      ViewerInternal.intercomHash = User.intercomHash u,
      ViewerInternal.digestEnabled = Some True\<rparr>"

text \<open>
  \<^verbatim>\<open>ViewerInternal.persist\<close>.  \<open>saves\<close> tells whether \<^verbatim>\<open>context.save()\<close> succeeds;
  when it throws, the context is rolled back and the error is thrown on.
\<close>

definition persist :: "ViewerInternal \<Rightarrow> bool \<Rightarrow> device \<Rightarrow> error + device" where
  "persist v saves dev =
     (let viewer =
            \<lparr>Viewer.userID = ViewerInternal.userID v,
             Viewer.username = ViewerInternal.username v,
             Viewer.name = ViewerInternal.name v,
             Viewer.profileImageURL = ViewerInternal.profileImageURL v,
             Viewer.digestEnabled =
               (case ViewerInternal.digestEnabled v of None \<Rightarrow> False | Some b \<Rightarrow> b)\<rparr>
      in if saves
         then Inr (dev\<lparr>viewers := viewers dev @ [viewer],
                       registeredUsers := registeredUsers dev @ [ViewerInternal.userID v]\<rparr>)
         else Inl (Error ''save''))"

text \<open>
  \<^verbatim>\<open>fetchViewer\<close>.  \<open>result\<close> is what \<^verbatim>\<open>send\<close> hands to its completion handler: the
  account the server reported, or a failure (which includes a \<^verbatim>\<open>me\<close> that is null);
  \<open>self_alive\<close> tells whether the weak reference to the service still holds.
\<close>

datatype send_result = success User | failure

definition fetchViewer ::
  "send_result \<Rightarrow> bool \<Rightarrow> bool \<Rightarrow> device \<Rightarrow> (BasicError + ViewerInternal option) \<times> device" where
  "fetchViewer result self_alive saves dev =
     (case result of
        failure \<Rightarrow> (Inl (message ''http error''), dev)
      | success account \<Rightarrow>
          (let payload = selection account;
               dev1 = (if userIdKey dev = None
                       then dev\<lparr>userIdKey := Some (ViewerInternal.userID payload),
                                registeredIntercomUsers :=
                                  registeredIntercomUsers dev @ [ViewerInternal.userID payload]\<rparr>
                       else dev);
               dev2 = (case ViewerInternal.intercomHash payload of
                         None \<Rightarrow> dev1
                       | Some intercomUserHash \<Rightarrow>
                           dev1\<lparr>intercomUserHashes :=
                                  intercomUserHashes dev1 @ [intercomUserHash]\<rparr>)
           in if self_alive
              then (case persist payload saves dev2 of
                      Inr dev3 \<Rightarrow> (Inr (Some payload), dev3)
                    | Inl e \<Rightarrow> (Inl (message ''coredata error''), dev2))
              else (Inl (message ''no self found''), dev2)))"

section \<open>Example collaborators, requests and states\<close>

text \<open>
  Modelled from the spec: \<^verbatim>\<open>enqueueCreateDigest\<close> is imported from
  \<^verbatim>\<open>../utils/createTask\<close>, which is not part of the sources.  The spec describes the
  collaborator as \<^verbatim>\<open>enqueue(jobRequest, schedule?)\<close>, which pushes to an external task
  queue and returns the accepted record, the job in state Pending.  The queue is the list
  \<open>enqueued\<close> of the state; the data source is left as it is.
\<close>

definition queueOnly ::
  "jsobj \<Rightarrow> json option \<Rightarrow> data_source \<Rightarrow> (error + json) \<times> data_source" where
  "queueOnly job schedule ds =
     (Inr (JObj [(''id'', case map_of job ''id'' of None \<Rightarrow> JNull | Some i \<Rightarrow> i),
                 (''state'', JStr ''Pending'')]), ds)"

text \<open>
  A second enqueue collaborator, for comparison: it also records the job as Running in the
  data source before it answers.
\<close>

definition queueAndMarkRunning ::
  "jsobj \<Rightarrow> json option \<Rightarrow> data_source \<Rightarrow> (error + json) \<times> data_source" where
  "queueAndMarkRunning job schedule ds =
     (case (map_of job ''id'', map_of job ''userId'') of
        (Some (JStr i), Some (JStr u)) \<Rightarrow>
          (case writeDigest u
                  \<lparr>Digest.id' = i, jobState = Running, createdAt = None, description = None,
                   byline = None, Digest.url = None, Digest.title = None, content = None,
                   chapters = None, urlsToAudio = None, speechFiles = None\<rparr> ds of
             Inl e \<Rightarrow> (Inl e, ds)
           | Inr ds' \<Rightarrow> (Inr (JObj [(''jobId'', JStr i), (''jobState'', JStr ''RUNNING'')]), ds'))
      | _ \<Rightarrow> (Inl (Error ''bad job''), ds))"

text \<open>
  Three accounts: \<open>u1\<close> is active and has the digest feature, \<open>u2\<close> is active without
  the feature, \<open>u3\<close> is not active.  Any other token is rejected by the resolver.
\<close>

definition exampleServices :: "(unit, unit) services" where
  "exampleServices =
     \<lparr>getClaimsByToken =
        (\<lambda>t. case t of
               None \<Rightarrow> Inr None
             | Some s \<Rightarrow>
                 if s = ''token-u1'' then Inr (Some \<lparr>uid = ''u1''\<rparr>)
                 else if s = ''token-u2'' then Inr (Some \<lparr>uid = ''u2''\<rparr>)
                 else if s = ''token-u3'' then Inr (Some \<lparr>uid = ''u3''\<rparr>)
                 else Inl (Error ''jwt malformed'')),
      findActiveUser = (\<lambda>u. Inr (if u = ''u1'' \<or> u = ''u2'' then Some () else None)),
      findGrantedFeatureByName = (\<lambda>f u. Inr (if u = ''u1'' then Some () else None)),
      enqueueCreateDigest = queueOnly,
      capture = (\<lambda>e. Inr ()),
      apiEnv = ''prod''\<rparr>"

definition runningServices :: "(unit, unit) services" where
  "runningServices = exampleServices\<lparr>enqueueCreateDigest := queueAndMarkRunning\<rparr>"

text \<open>The same services with an analytics client whose \<^verbatim>\<open>capture\<close> throws.\<close>

definition throwingAnalytics :: "(unit, unit) services" where
  "throwingAnalytics = exampleServices\<lparr>capture := (\<lambda>e. Inl (Error ''capture failed''))\<rparr>"

definition emptySource :: data_source where
  "emptySource = \<lparr>redisClient = Some Map.empty, clock = 0\<rparr>"

definition exampleWorld :: world where
  "exampleWorld = \<lparr>store = emptySource, enqueued = [], captured = []\<rparr>"

definition submitEn :: request where
  "submitEn = \<lparr>token = Some ''token-u1'', body = [(''language'', JStr ''en'')]\<rparr>"

definition noToken :: request where
  "noToken = \<lparr>token = None, body = []\<rparr>"

definition badToken :: request where
  "badToken = \<lparr>token = Some ''garbage'', body = []\<rparr>"

definition inactiveUser :: request where
  "inactiveUser = \<lparr>token = Some ''token-u3'', body = []\<rparr>"

definition notGranted :: request where
  "notGranted = \<lparr>token = Some ''token-u2'', body = []\<rparr>"

definition pendingDigest :: Digest where
  "pendingDigest =
     \<lparr>Digest.id' = ''job-1'', jobState = Pending, createdAt = None, description = None,
      byline = None, Digest.url = None, Digest.title = None, content = None,
      chapters = None, urlsToAudio = None, speechFiles = None\<rparr>"

definition runningDigest :: Digest where
  "runningDigest = pendingDigest\<lparr>jobState := Running\<rparr>"

definition weeklyDigest :: Digest where
  "weeklyDigest =
     \<lparr>Digest.id' = ''job-1'', jobState = Succeeded, createdAt = Some (DateObject 0),
      description = None, byline = None, Digest.url = None,
      Digest.title = Some ''Weekly Digest'', content = None,
      chapters = Some [\<lparr>Chapter.title = ''One'', Chapter.id' = ''c1'',
                       Chapter.url = ''https://example.com/1'', wordCount = 120,
                       thumbnail = None\<rparr>],
      urlsToAudio = Some [''https://example.com/a.mp3''], speechFiles = None\<rparr>"

text \<open>The state in which user \<open>u1\<close> has the given record, written at time 0.\<close>

definition storing :: "Digest \<Rightarrow> world" where
  "storing d =
     \<lparr>store = \<lparr>redisClient = Some [digestKey ''u1'' \<mapsto> (JSON_stringify d, 604800)],
                clock = 0\<rparr>,
      enqueued = [], captured = []\<rparr>"

definition pendingWorld :: world where
  "pendingWorld = storing pendingDigest"

definition weeklySource :: data_source where
  "weeklySource = store (storing weeklyDigest)"

text \<open>The job \<^verbatim>\<open>POST /v1\<close> hands to the collaborator for the request \<open>submitEn\<close>.\<close>

definition submitEnJob :: "string \<Rightarrow> jsobj \<times> json option" where
  "submitEnJob uuid =
     ([(''id'', JStr uuid), (''userId'', JStr ''u1''), (''language'', JStr ''en'')], None)"

definition runningWorld :: world where
  "runningWorld = (storing runningDigest)\<lparr>enqueued := [submitEnJob ''job-1'']\<rparr>"

text \<open>Feedback payloads.\<close>

definition ratings :: jsobj where
  "ratings =
     [(''digestRating'', JNum 5), (''rankingRating'', JNum 4), (''summaryRating'', JNum 3),
      (''voiceRating'', JNum 2), (''musicRating'', JNum 1)]"

definition feedbackWithComment :: request where
  "feedbackWithComment =
     \<lparr>token = Some ''token-u1'', body = ratings @ [(''comment'', JStr ''too long'')]\<rparr>"

definition feedbackOtherComment :: request where
  "feedbackOtherComment =
     \<lparr>token = Some ''token-u1'', body = ratings @ [(''comment'', JStr ''just right'')]\<rparr>"

definition feedbackNoMusic :: request where
  "feedbackNoMusic =
     \<lparr>token = Some ''token-u1'',
      body = [(''digestRating'', JNum 5), (''rankingRating'', JNum 4),
              (''summaryRating'', JNum 3), (''voiceRating'', JNum 2),
              (''comment'', JStr ''no music'')]\<rparr>"

definition feedbackOddTypes :: request where
  "feedbackOddTypes =
     \<lparr>token = Some ''token-u1'',
      body = [(''digestRating'', JStr ''five''), (''rankingRating'', JNull),
              (''summaryRating'', JNum (- 40)), (''voiceRating'', JArr []),
              (''musicRating'', JBool False)]\<rparr>"

definition ratingsEvent :: capture_event where
  "ratingsEvent =
     \<lparr>distinctId = ''u1'', event = ''digest_feedback'',
      properties = ratings @ [(''env'', JStr ''prod'')]\<rparr>"

text \<open>
  GraphQL requests of user \<open>u1\<close>: the mutation under its own name and under the alias
  \<open>r\<close>.  In both the reply fails and the result carries its error codes under the
  response key, which is the name of the field, or the alias when the request gives one.
\<close>

definition replyRequest :: graphql_request where
  "replyRequest =
     \<lparr>query = Some ''mutation { replyToEmail(input: $input) { ... on ReplyToEmailError { errorCodes } } }'',
      claims = Some \<lparr>uid = ''u1''\<rparr>\<rparr>"

definition aliasRequest :: graphql_request where
  "aliasRequest =
     \<lparr>query = Some ''mutation { r: replyToEmail(input: $input) { ... on ReplyToEmailError { errorCodes } } }'',
      claims = Some \<lparr>uid = ''u1''\<rparr>\<rparr>"

definition notSent :: "graphql_request \<Rightarrow> graphql_response" where
  "notSent request =
     \<lparr>errors = None,
      data = Some (JObj [(''replyToEmail'', JObj [(''errorCodes'', JArr [JStr ''FAILED''])])])\<rparr>"

definition notSentUnderAlias :: "graphql_request \<Rightarrow> graphql_response" where
  "notSentUnderAlias request =
     \<lparr>errors = None,
      data = Some (JObj [(''r'', JObj [(''errorCodes'', JArr [JStr ''FAILED''])])])\<rparr>"

definition freshDay :: api_state where
  "freshDay = \<lparr>ledger = \<lparr>serviceUsage = (\<lambda>key. 0), today = 0\<rparr>, executed = []\<rparr>"

definition account :: User where
  "account =
     \<lparr>User.id' = ''u2'', User.username = ''reader'', User.name = ''A Reader'',
      pictureUrl = None, User.intercomHash = None,
      featureList = Some [\<lparr>Feature.name = ''digest'', enabled = False\<rparr>]\<rparr>"

definition newDevice :: device where
  "newDevice =
     \<lparr>userIdKey = None, viewers = [], registeredIntercomUsers = [], intercomUserHashes = [],
      registeredUsers = []\<rparr>"

definition accountViewer :: ViewerInternal where
  "accountViewer =
     \<lparr>ViewerInternal.userID = ''u2'', ViewerInternal.username = ''reader'',
      ViewerInternal.name = ''A Reader'', ViewerInternal.profileImageURL = None,
      ViewerInternal.intercomHash = None, ViewerInternal.digestEnabled = Some True\<rparr>"

definition savedDevice :: device where
  "savedDevice =
     \<lparr>userIdKey = Some ''u2'',
      viewers = [\<lparr>Viewer.userID = ''u2'', Viewer.username = ''reader'',
                  Viewer.name = ''A Reader'', Viewer.profileImageURL = None,
                  Viewer.digestEnabled = True\<rparr>],
      registeredIntercomUsers = [''u2''], intercomUserHashes = [],
      registeredUsers = [''u2'']\<rparr>"

section \<open>Properties of the digest service\<close>

lemmas example_defs = exampleServices_def exampleWorld_def emptySource_def submitEn_def
  getTokenByRequest_def queueOnly_def pendingWorld_def pendingDigest_def runningDigest_def
  weeklyDigest_def storing_def weeklySource_def noToken_def badToken_def inactiveUser_def
  notGranted_def runningServices_def queueAndMarkRunning_def

lemma getDigest_writeDigest:
  assumes "writeDigest userId d ds = Inr ds'"
  shows "getDigest (elapse seconds ds') userId =
           (if seconds < 604800 then Some (JSON_parse (JSON_stringify d)) else None)"
  using assms
  by (auto simp: writeDigest_def getDigest_def elapse_def redis_get_def redis_set_EX_def
           split: option.splits)

lemma writeDigest_expiresAt:
  assumes "writeDigest userId d ds = Inr ds'"
  shows "\<exists>r. redisClient ds' = Some r \<and>
             r (digestKey userId) = Some (JSON_stringify d, clock ds + 604800)"
  using assms
  by (auto simp: writeDigest_def redis_set_EX_def split: option.splits)

lemma writeDigest_example:
  "writeDigest ''u1'' weeklyDigest emptySource = Inr weeklySource"
  by (simp add: writeDigest_def redis_set_EX_def example_defs)

lemma writeDigest_pending_example:
  "writeDigest ''u1'' pendingDigest emptySource = Inr (store pendingWorld)"
  by (simp add: writeDigest_def redis_set_EX_def example_defs)

lemma toISOString_epoch: "toISOString 0 = ''1970-01-01T00:00:00.000Z''"
  by code_simp

lemma elapse_0: "elapse 0 ds = ds"
  by (simp add: elapse_def)

lemma example_auth:
  "getClaimsByToken exampleServices (getTokenByRequest submitEn) = Inr (Some \<lparr>uid = ''u1''\<rparr>)"
  "findActiveUser exampleServices (uid \<lparr>uid = ''u1''\<rparr>) = Inr (Some ())"
  "findGrantedFeatureByName exampleServices AIDigest (uid \<lparr>uid = ''u1''\<rparr>) = Inr (Some ())"
  by (simp_all add: example_defs)

text \<open>
  Claim C9.  Every write of a digest sets the expiry of the key to exactly 7 days
  (604800 seconds) after the write, whatever the state of the record.  So once 604800
  seconds or more have passed with no further write, \<^verbatim>\<open>getDigest\<close> returns null, and
  \<^verbatim>\<open>GET /v1\<close>, for a caller who passes the token, account and feature checks, answers
  404.
\<close>

theorem writeDigest_seven_days:
  assumes "writeDigest userId d ds = Inr ds'"
  shows "(\<exists>r. redisClient ds' = Some r \<and>
              map_option snd (r (digestKey userId)) = Some (clock ds + 604800)) \<and>
         (604800 \<le> seconds \<longrightarrow> getDigest (elapse seconds ds') userId = None) \<and>
         (604800 \<le> seconds \<and>
          getClaimsByToken sv (getTokenByRequest req) = Inr (Some c) \<and> uid c = userId \<and>
          findActiveUser sv userId = Inr (Some user) \<and>
          findGrantedFeatureByName sv AIDigest userId = Inr (Some feature) \<and>
          store w = elapse seconds ds'
          \<longrightarrow> get_v1 sv req w = (SendStatus 404, w))"
proof (intro conjI impI)
  show "\<exists>r. redisClient ds' = Some r \<and>
            map_option snd (r (digestKey userId)) = Some (clock ds + 604800)"
    using writeDigest_expiresAt [OF assms] by auto
next
  assume "604800 \<le> seconds"
  then show "getDigest (elapse seconds ds') userId = None"
    by (simp add: getDigest_writeDigest [OF assms])
next
  assume h: "604800 \<le> seconds \<and>
          getClaimsByToken sv (getTokenByRequest req) = Inr (Some c) \<and> uid c = userId \<and>
          findActiveUser sv userId = Inr (Some user) \<and>
          findGrantedFeatureByName sv AIDigest userId = Inr (Some feature) \<and>
          store w = elapse seconds ds'"
  then have "getDigest (store w) (uid c) = None"
    by (simp add: getDigest_writeDigest [OF assms])
  with h show "get_v1 sv req w = (SendStatus 404, w)"
    by (simp add: get_v1_def)
qed

theorem writeDigest_seven_days_witness:
  "writeDigest ''u1'' weeklyDigest emptySource = Inr weeklySource \<and>
   (\<exists>r. redisClient weeklySource = Some r \<and>
        map_option snd (r (digestKey ''u1'')) = Some 604800) \<and>
   getDigest (elapse 604800 weeklySource) ''u1'' = None \<and>
   get_v1 exampleServices submitEn (exampleWorld\<lparr>store := elapse 604800 weeklySource\<rparr>) =
     (SendStatus 404, exampleWorld\<lparr>store := elapse 604800 weeklySource\<rparr>)"
proof -
  have "clock emptySource = 0"
    by (simp add: example_defs)
  then show ?thesis
    using writeDigest_example example_auth
      writeDigest_seven_days [OF writeDigest_example, of 604800 exampleServices submitEn
        "\<lparr>uid = ''u1''\<rparr>" "()" "()" "exampleWorld\<lparr>store := elapse 604800 weeklySource\<rparr>"]
    by simp
qed

text \<open>
  Claim C4 says that a Succeeded digest written by \<^verbatim>\<open>writeDigest\<close> and read back by
  \<^verbatim>\<open>getDigest\<close>, before the expiry and with no write in between, is equal to the one
  written, field for field, \<^verbatim>\<open>createdAt\<close> included.  The code breaks this for a digest
  whose \<^verbatim>\<open>createdAt\<close> is a \<^verbatim>\<open>Date\<close>, which is what the interface \<^verbatim>\<open>Digest\<close>
  declares the field to be: the record \<^verbatim>\<open>getDigest\<close> returns, cast to \<^verbatim>\<open>Digest\<close>,
  holds the ISO string of the date in its place.  Here the digest is written with
  \<^verbatim>\<open>createdAt: new Date(0)\<close> and read back at once.
\<close>

theorem writeDigest_getDigest_date:
  "writeDigest ''u1'' weeklyDigest emptySource = Inr weeklySource \<and>
   jobState weeklyDigest = Succeeded \<and>
   createdAt weeklyDigest = Some (DateObject 0) \<and>
   getDigest weeklySource ''u1'' =
     Some (weeklyDigest\<lparr>createdAt := Some (DateString ''1970-01-01T00:00:00.000Z'')\<rparr>) \<and>
   getDigest weeklySource ''u1'' \<noteq> Some weeklyDigest"
  by (simp add: writeDigest_def getDigest_def redis_get_def redis_set_EX_def example_defs
      toISOString_epoch)

text \<open>
  What the round trip does keep.  Before the expiry and with no write in between,
  \<^verbatim>\<open>getDigest\<close> returns the digest as JSON carries it: every field is the one written,
  except that a \<^verbatim>\<open>createdAt\<close> given as a \<^verbatim>\<open>Date\<close> comes back as its ISO string.  The
  round trip is the identity on a digest whose \<^verbatim>\<open>createdAt\<close> is absent or a string
  already.  For a Succeeded digest, \<^verbatim>\<open>GET /v1\<close> sends that same JSON record to a
  caller who passes the checks, so the body on the wire is the JSON of what was written.
\<close>

theorem writeDigest_getDigest_json:
  assumes "writeDigest userId d ds = Inr ds'"
    and "seconds < 604800"
  shows "getDigest (elapse seconds ds') userId =
           Some (d\<lparr>createdAt := map_option dateToJSON (createdAt d)\<rparr>) \<and>
         (createdAt d = None \<or> createdAt d = Some (DateString s)
          \<longrightarrow> getDigest (elapse seconds ds') userId = Some d) \<and>
         (jobState d = Succeeded \<and>
          getClaimsByToken sv (getTokenByRequest req) = Inr (Some c) \<and> uid c = userId \<and>
          findActiveUser sv userId = Inr (Some user) \<and>
          findGrantedFeatureByName sv AIDigest userId = Inr (Some feature) \<and>
          store w = elapse seconds ds'
          \<longrightarrow> get_v1 sv req w =
                (Send 200 (DigestBody (d\<lparr>createdAt := map_option dateToJSON (createdAt d)\<rparr>)), w))"
proof -
  have g: "getDigest (elapse seconds ds') userId =
             Some (d\<lparr>createdAt := map_option dateToJSON (createdAt d)\<rparr>)"
    using assms(2) by (simp add: getDigest_writeDigest [OF assms(1)])
  have i: "getDigest (elapse seconds ds') userId = Some d"
    if "createdAt d = None \<or> createdAt d = Some (DateString s)"
    using that g by auto
  have s: "get_v1 sv req w =
             (Send 200 (DigestBody (d\<lparr>createdAt := map_option dateToJSON (createdAt d)\<rparr>)), w)"
    if "jobState d = Succeeded \<and>
        getClaimsByToken sv (getTokenByRequest req) = Inr (Some c) \<and> uid c = userId \<and>
        findActiveUser sv userId = Inr (Some user) \<and>
        findGrantedFeatureByName sv AIDigest userId = Inr (Some feature) \<and>
        store w = elapse seconds ds'"
    using that g by (simp add: get_v1_def)
  from g i s show ?thesis by blast
qed

theorem writeDigest_getDigest_json_witness:
  "writeDigest ''u1'' weeklyDigest emptySource = Inr weeklySource \<and>
   getDigest weeklySource ''u1'' =
     Some (weeklyDigest\<lparr>createdAt := Some (DateString ''1970-01-01T00:00:00.000Z'')\<rparr>) \<and>
   get_v1 exampleServices submitEn (exampleWorld\<lparr>store := weeklySource\<rparr>) =
     (Send 200 (DigestBody
        (weeklyDigest\<lparr>createdAt := Some (DateString ''1970-01-01T00:00:00.000Z'')\<rparr>)),
      exampleWorld\<lparr>store := weeklySource\<rparr>) \<and>
   writeDigest ''u1'' pendingDigest emptySource = Inr (store pendingWorld) \<and>
   createdAt pendingDigest = None \<and>
   getDigest (store pendingWorld) ''u1'' = Some pendingDigest"
proof -
  have f: "createdAt weeklyDigest = Some (DateObject 0)" "jobState weeklyDigest = Succeeded"
    "createdAt pendingDigest = None"
    by (simp_all add: example_defs)
  have l: "(0::nat) < 604800"
    by simp
  have a: "getDigest weeklySource ''u1'' =
             Some (weeklyDigest\<lparr>createdAt := Some (DateString ''1970-01-01T00:00:00.000Z'')\<rparr>) \<and>
           get_v1 exampleServices submitEn (exampleWorld\<lparr>store := weeklySource\<rparr>) =
             (Send 200 (DigestBody
                (weeklyDigest\<lparr>createdAt := Some (DateString ''1970-01-01T00:00:00.000Z'')\<rparr>)),
              exampleWorld\<lparr>store := weeklySource\<rparr>)"
    using f example_auth
      writeDigest_getDigest_json [OF writeDigest_example l, of "[]" exampleServices submitEn
        "\<lparr>uid = ''u1''\<rparr>" "()" "()" "exampleWorld\<lparr>store := weeklySource\<rparr>"]
    by (simp add: elapse_0 toISOString_epoch)
  have b: "getDigest (store pendingWorld) ''u1'' = Some pendingDigest"
    using f
      writeDigest_getDigest_json [OF writeDigest_pending_example l, of "[]" exampleServices
        submitEn "\<lparr>uid = ''u1''\<rparr>" "()" "()" "exampleWorld\<lparr>store := weeklySource\<rparr>"]
    by (simp add: elapse_0)
  show ?thesis
    using writeDigest_example writeDigest_pending_example f a b by simp
qed

section \<open>Properties of the digest router\<close>

lemma get_v1_world: "snd (get_v1 sv req w) = w"
  by (simp add: get_v1_def Let_def split: sum.splits option.splits)

lemma get_v1_found:
  assumes "getClaimsByToken sv (getTokenByRequest req) = Inr (Some c)"
    and "findActiveUser sv (uid c) = Inr (Some user)"
    and "findGrantedFeatureByName sv AIDigest (uid c) = Inr (Some feature)"
  shows "get_v1 sv req w =
           (case getDigest (store w) (uid c) of
              None \<Rightarrow> (SendStatus 404, w)
            | Some digest \<Rightarrow>
                if jobState digest = Running
                then (Send 200 (JobStatus (Digest.id' digest) (jobState digest)), w)
                else (Send 200 (DigestBody digest), w))"
  using assms by (simp add: get_v1_def)

lemma post_v1_running:
  assumes "getClaimsByToken sv (getTokenByRequest req) = Inr (Some c)"
    and "findActiveUser sv (uid c) = Inr (Some user)"
    and "findGrantedFeatureByName sv AIDigest (uid c) = Inr (Some feature)"
    and "map_option jobState (getDigest (store w) (uid c)) = Some Running"
  shows "post_v1 sv req uuid w = (SendStatus 202, w)"
  using assms by (simp add: post_v1_def)

lemma post_v1_not_running:
  assumes "getClaimsByToken sv (getTokenByRequest req) = Inr (Some c)"
    and "findActiveUser sv (uid c) = Inr (Some user)"
    and "findGrantedFeatureByName sv AIDigest (uid c) = Inr (Some feature)"
    and "map_option jobState (getDigest (store w) (uid c)) \<noteq> Some Running"
  shows "post_v1 sv req uuid w =
           (case enqueueCreateDigest sv
                   (spread [(''id'', JStr uuid), (''userId'', JStr (uid c))] (body req))
                   (map_of (body req) ''schedule'') (store w) of
              (result, ds) \<Rightarrow>
                (case result of Inl e \<Rightarrow> SendStatus 500 | Inr r \<Rightarrow> Send 201 (Json r),
                 w\<lparr>store := ds,
                   enqueued := enqueued w @
                     [(spread [(''id'', JStr uuid), (''userId'', JStr (uid c))] (body req),
                       map_of (body req) ''schedule'')]\<rparr>))"
  using assms
  by (simp add: post_v1_def callEnqueueCreateDigest_def Let_def split: prod.splits sum.splits)

lemma post_v1_201_enqueued:
  assumes "post_v1 sv req uuid w = (Send 201 r, w1)"
  shows "\<exists>job. enqueued w1 = enqueued w @ [job]"
  using assms
  by (auto simp: post_v1_def callEnqueueCreateDigest_def Let_def
           split: sum.splits option.splits if_splits prod.splits)


lemma example_not_running:
  "map_option jobState (getDigest (store exampleWorld) ''u1'') \<noteq> Some Running"
  "map_option jobState (getDigest (store pendingWorld) ''u1'') = Some Pending"
  by (simp_all add: example_defs getDigest_def redis_get_def)

lemma running_auth:
  "getClaimsByToken runningServices (getTokenByRequest submitEn) = Inr (Some \<lparr>uid = ''u1''\<rparr>)"
  "findActiveUser runningServices (uid \<lparr>uid = ''u1''\<rparr>) = Inr (Some ())"
  "findGrantedFeatureByName runningServices AIDigest (uid \<lparr>uid = ''u1''\<rparr>) = Inr (Some ())"
  by (simp_all add: example_defs)

lemma post_v1_running_example:
  "post_v1 runningServices submitEn ''job-1'' exampleWorld =
     (Send 201 (Json (JObj [(''jobId'', JStr ''job-1''), (''jobState'', JStr ''RUNNING'')])),
      runningWorld)"
  by (simp add: example_defs post_v1_def callEnqueueCreateDigest_def getDigest_def redis_get_def
      digestKey_def spread_def Let_def writeDigest_def redis_set_EX_def runningWorld_def
      submitEnJob_def)

text \<open>
  Claim C3.  For a caller who passes the token, account and feature checks and whose
  stored job is Running, \<^verbatim>\<open>GET /v1\<close> sends exactly the two fields \<^verbatim>\<open>jobId\<close> and
  \<^verbatim>\<open>jobState\<close> and nothing of the result; for a stored job in any other state it sends
  the record \<^verbatim>\<open>getDigest\<close> returned, in full.  In both cases the state after the call
  is the state before it: nothing is written.
\<close>

theorem get_v1_running_partial:
  assumes "getClaimsByToken sv (getTokenByRequest req) = Inr (Some c)"
    and "findActiveUser sv (uid c) = Inr (Some user)"
    and "findGrantedFeatureByName sv AIDigest (uid c) = Inr (Some feature)"
    and "getDigest (store w) (uid c) = Some digest"
  shows "get_v1 sv req w =
           (if jobState digest = Running
            then Send 200 (JobStatus (Digest.id' digest) Running)
            else Send 200 (DigestBody digest), w)"
  using assms by (simp add: get_v1_found)

theorem get_v1_running_partial_witness:
  "getClaimsByToken exampleServices (getTokenByRequest submitEn) = Inr (Some \<lparr>uid = ''u1''\<rparr>) \<and>
   findActiveUser exampleServices ''u1'' = Inr (Some ()) \<and>
   findGrantedFeatureByName exampleServices AIDigest ''u1'' = Inr (Some ()) \<and>
   getDigest (store (storing runningDigest)) ''u1'' = Some runningDigest \<and>
   get_v1 exampleServices submitEn (storing runningDigest) =
     (Send 200 (JobStatus ''job-1'' Running), storing runningDigest) \<and>
   getDigest (store (storing pendingDigest)) ''u1'' = Some pendingDigest \<and>
   get_v1 exampleServices submitEn (storing pendingDigest) =
     (Send 200 (DigestBody pendingDigest), storing pendingDigest)"
proof -
  have d: "getDigest (store (storing runningDigest)) (uid \<lparr>uid = ''u1''\<rparr>) = Some runningDigest"
    by (simp add: example_defs getDigest_def redis_get_def)
  have d': "getDigest (store (storing pendingDigest)) (uid \<lparr>uid = ''u1''\<rparr>) = Some pendingDigest"
    by (simp add: example_defs getDigest_def redis_get_def)
  have e: "jobState runningDigest = Running" "Digest.id' runningDigest = ''job-1''"
    "jobState pendingDigest = Pending"
    by (simp_all add: example_defs)
  show ?thesis
    using example_auth d d' e
      get_v1_running_partial [OF example_auth d]
      get_v1_running_partial [OF example_auth d']
    by simp
qed

text \<open>
  Claim C5.  When \<^verbatim>\<open>POST /v1\<close> finds no valid token (the resolver throws or returns
  null) or no active account, it answers 401; when the digest feature is not granted, it
  answers 403.  In each case the state after the call is the state before it: no record
  is written to the store and the enqueue collaborator is not called.
\<close>

theorem post_v1_rejected_no_effect:
  "(getClaimsByToken sv (getTokenByRequest req) = Inl e \<or>
    getClaimsByToken sv (getTokenByRequest req) = Inr None
    \<longrightarrow> post_v1 sv req uuid w = (SendStatus 401, w)) \<and>
   (getClaimsByToken sv (getTokenByRequest req) = Inr (Some c) \<and>
    findActiveUser sv (uid c) = Inr None
    \<longrightarrow> post_v1 sv req uuid w = (SendStatus 401, w)) \<and>
   (getClaimsByToken sv (getTokenByRequest req) = Inr (Some c) \<and>
    findActiveUser sv (uid c) = Inr (Some user) \<and>
    findGrantedFeatureByName sv AIDigest (uid c) = Inr None
    \<longrightarrow> post_v1 sv req uuid w = (SendStatus 403, w))"
  by (auto simp: post_v1_def)

theorem post_v1_rejected_no_effect_witness:
  "getClaimsByToken exampleServices (getTokenByRequest badToken) = Inl (Error ''jwt malformed'') \<and>
   post_v1 exampleServices badToken ''job-1'' exampleWorld = (SendStatus 401, exampleWorld) \<and>
   getClaimsByToken exampleServices (getTokenByRequest noToken) = Inr None \<and>
   post_v1 exampleServices noToken ''job-1'' exampleWorld = (SendStatus 401, exampleWorld) \<and>
   getClaimsByToken exampleServices (getTokenByRequest inactiveUser) = Inr (Some \<lparr>uid = ''u3''\<rparr>) \<and>
   findActiveUser exampleServices ''u3'' = Inr None \<and>
   post_v1 exampleServices inactiveUser ''job-1'' exampleWorld = (SendStatus 401, exampleWorld) \<and>
   getClaimsByToken exampleServices (getTokenByRequest notGranted) = Inr (Some \<lparr>uid = ''u2''\<rparr>) \<and>
   findActiveUser exampleServices ''u2'' = Inr (Some ()) \<and>
   findGrantedFeatureByName exampleServices AIDigest ''u2'' = Inr None \<and>
   post_v1 exampleServices notGranted ''job-1'' exampleWorld = (SendStatus 403, exampleWorld)"
proof -
  have a: "getClaimsByToken exampleServices (getTokenByRequest badToken) = Inl (Error ''jwt malformed'')"
    "getClaimsByToken exampleServices (getTokenByRequest noToken) = Inr None"
    "getClaimsByToken exampleServices (getTokenByRequest inactiveUser) = Inr (Some \<lparr>uid = ''u3''\<rparr>)"
    "findActiveUser exampleServices ''u3'' = Inr None"
    "getClaimsByToken exampleServices (getTokenByRequest notGranted) = Inr (Some \<lparr>uid = ''u2''\<rparr>)"
    "findActiveUser exampleServices ''u2'' = Inr (Some ())"
    "findGrantedFeatureByName exampleServices AIDigest ''u2'' = Inr None"
    by (simp_all add: example_defs)
  show ?thesis
    using a
      post_v1_rejected_no_effect [of exampleServices badToken "Error ''jwt malformed''" "''job-1''"
        exampleWorld "\<lparr>uid = ''u3''\<rparr>" "()"]
      post_v1_rejected_no_effect [of exampleServices noToken "Error ''jwt malformed''" "''job-1''"
        exampleWorld "\<lparr>uid = ''u3''\<rparr>" "()"]
      post_v1_rejected_no_effect [of exampleServices inactiveUser "Error ''jwt malformed''" "''job-1''"
        exampleWorld "\<lparr>uid = ''u3''\<rparr>" "()"]
      post_v1_rejected_no_effect [of exampleServices notGranted "Error ''jwt malformed''" "''job-1''"
        exampleWorld "\<lparr>uid = ''u2''\<rparr>" "()"]
    by simp
qed

text \<open>
  Claim C1, as stated: a stored job in state Pending or Running makes \<^verbatim>\<open>POST /v1\<close>
  answer with the existing job and call no enqueue.  It fails for a Pending job: the
  handler tests for Running only, so the job goes to the enqueue collaborator under the
  fresh id and the answer is 201.
\<close>

theorem pending_not_guarded_counterexample:
  "map_option jobState (getDigest (store pendingWorld) ''u1'') = Some Pending \<and>
   post_v1 exampleServices submitEn ''job-2'' pendingWorld =
     (Send 201 (Json (JObj [(''id'', JStr ''job-2''), (''state'', JStr ''Pending'')])),
      pendingWorld\<lparr>enqueued := [submitEnJob ''job-2'']\<rparr>)"
  by (simp add: example_defs post_v1_def callEnqueueCreateDigest_def getDigest_def redis_get_def
      digestKey_def spread_def Let_def submitEnJob_def)

text \<open>
  Claim C1, amended.  For a caller who passes the checks and whose stored job is Running,
  \<^verbatim>\<open>POST /v1\<close> answers 202 with no job in the response, leaves the state as it is and
  does not call the enqueue collaborator.  When a first call was accepted with 201 and the store then
  shows a Running job for the user, a second call answers 202 in the same way, and
  enqueue has been called exactly once over the two calls.
\<close>

theorem post_v1_running_guard:
  assumes "getClaimsByToken sv (getTokenByRequest req) = Inr (Some c)"
    and "findActiveUser sv (uid c) = Inr (Some user)"
    and "findGrantedFeatureByName sv AIDigest (uid c) = Inr (Some feature)"
  shows "(map_option jobState (getDigest (store w) (uid c)) = Some Running
          \<longrightarrow> post_v1 sv req uuid w = (SendStatus 202, w)) \<and>
         (post_v1 sv req uuid w = (Send 201 r, w') \<and>
          map_option jobState (getDigest (store w') (uid c)) = Some Running
          \<longrightarrow> post_v1 sv req uuid' w' = (SendStatus 202, w') \<and>
              length (enqueued w') = Suc (length (enqueued w)))"
proof (intro conjI impI)
  assume "map_option jobState (getDigest (store w) (uid c)) = Some Running"
  then show "post_v1 sv req uuid w = (SendStatus 202, w)"
    by (rule post_v1_running [OF assms])
next
  assume h: "post_v1 sv req uuid w = (Send 201 r, w') \<and>
             map_option jobState (getDigest (store w') (uid c)) = Some Running"
  then show "post_v1 sv req uuid' w' = (SendStatus 202, w')"
    by (simp add: post_v1_running [OF assms])
  from h obtain job where "enqueued w' = enqueued w @ [job]"
    using post_v1_201_enqueued by blast
  then show "length (enqueued w') = Suc (length (enqueued w))"
    by simp
qed

theorem post_v1_running_guard_witness:
  "getClaimsByToken runningServices (getTokenByRequest submitEn) = Inr (Some \<lparr>uid = ''u1''\<rparr>) \<and>
   findActiveUser runningServices ''u1'' = Inr (Some ()) \<and>
   findGrantedFeatureByName runningServices AIDigest ''u1'' = Inr (Some ()) \<and>
   post_v1 runningServices submitEn ''job-1'' exampleWorld =
     (Send 201 (Json (JObj [(''jobId'', JStr ''job-1''), (''jobState'', JStr ''RUNNING'')])),
      runningWorld) \<and>
   map_option jobState (getDigest (store runningWorld) ''u1'') = Some Running \<and>
   post_v1 runningServices submitEn ''job-2'' runningWorld = (SendStatus 202, runningWorld) \<and>
   length (enqueued runningWorld) = Suc (length (enqueued exampleWorld))"
proof -
  have g: "map_option jobState (getDigest (store runningWorld) (uid \<lparr>uid = ''u1''\<rparr>)) = Some Running"
    by (simp add: example_defs runningWorld_def getDigest_def redis_get_def)
  note r = post_v1_running_guard [OF running_auth, where w = exampleWorld and uuid = "''job-1''"
        and r = "Json (JObj [(''jobId'', JStr ''job-1''), (''jobState'', JStr ''RUNNING'')])"
        and w' = runningWorld and uuid' = "''job-2''"]
  note s = post_v1_running_guard [OF running_auth, where w = runningWorld and uuid = "''job-2''"]
  have a: "post_v1 runningServices submitEn ''job-2'' runningWorld = (SendStatus 202, runningWorld)"
    using conjunct1 [OF s] g by simp
  have b: "length (enqueued runningWorld) = Suc (length (enqueued exampleWorld))"
    using conjunct2 [OF r] post_v1_running_example g by simp
  have c: "getClaimsByToken runningServices (getTokenByRequest submitEn) = Inr (Some \<lparr>uid = ''u1''\<rparr>)"
    "findActiveUser runningServices ''u1'' = Inr (Some ())"
    "findGrantedFeatureByName runningServices AIDigest ''u1'' = Inr (Some ())"
    "map_option jobState (getDigest (store runningWorld) ''u1'') = Some Running"
    using running_auth g by simp_all
  show ?thesis
    by (intro conjI) (fact c post_v1_running_example a b)+
qed

text \<open>
  Claim C2, as stated: an accepted \<^verbatim>\<open>POST /v1\<close> persists a Pending record, so that
  \<^verbatim>\<open>GET /v1\<close> right after it returns a Pending or Running record with the same id.
  The handler writes nothing; with the enqueue collaborator of the spec, which only
  queues the job, the store is still empty after the 201 and \<^verbatim>\<open>GET /v1\<close> answers 404.
\<close>

theorem submit_then_status_counterexample:
  "map_option jobState (getDigest (store exampleWorld) ''u1'') = None \<and>
   post_v1 exampleServices submitEn ''job-1'' exampleWorld =
     (Send 201 (Json (JObj [(''id'', JStr ''job-1''), (''state'', JStr ''Pending'')])),
      exampleWorld\<lparr>enqueued := [submitEnJob ''job-1'']\<rparr>) \<and>
   get_v1 exampleServices submitEn (exampleWorld\<lparr>enqueued := [submitEnJob ''job-1'']\<rparr>) =
     (SendStatus 404, exampleWorld\<lparr>enqueued := [submitEnJob ''job-1'']\<rparr>)"
  by (simp add: example_defs post_v1_def get_v1_def callEnqueueCreateDigest_def getDigest_def
      redis_get_def digestKey_def spread_def Let_def submitEnJob_def)

text \<open>
  Claim C2, amended.  For a caller who passes the checks and has no Running job, when
  the enqueue collaborator returns a record, \<^verbatim>\<open>POST /v1\<close> answers 201 with that
  record, has called enqueue once with the job built from the fresh id, the user id and
  the request body, and has written nothing itself: the data source after the call is
  the one the collaborator left.  When the collaborator left the user's record as it
  was, \<^verbatim>\<open>GET /v1\<close> answers after the call what it answered before it.
\<close>

theorem post_v1_accepted:
  assumes "getClaimsByToken sv (getTokenByRequest req) = Inr (Some c)"
    and "findActiveUser sv (uid c) = Inr (Some user)"
    and "findGrantedFeatureByName sv AIDigest (uid c) = Inr (Some feature)"
    and "map_option jobState (getDigest (store w) (uid c)) \<noteq> Some Running"
    and "enqueueCreateDigest sv
           (spread [(''id'', JStr uuid), (''userId'', JStr (uid c))] (body req))
           (map_of (body req) ''schedule'') (store w) = (Inr result, ds)"
  shows "post_v1 sv req uuid w =
           (Send 201 (Json result),
            w\<lparr>store := ds,
              enqueued := enqueued w @
                [(spread [(''id'', JStr uuid), (''userId'', JStr (uid c))] (body req),
                  map_of (body req) ''schedule'')]\<rparr>) \<and>
         (getDigest ds (uid c) = getDigest (store w) (uid c)
          \<longrightarrow> fst (get_v1 sv req (snd (post_v1 sv req uuid w))) = fst (get_v1 sv req w))"
proof -
  have p: "post_v1 sv req uuid w =
           (Send 201 (Json result),
            w\<lparr>store := ds,
              enqueued := enqueued w @
                [(spread [(''id'', JStr uuid), (''userId'', JStr (uid c))] (body req),
                  map_of (body req) ''schedule'')]\<rparr>)"
    using assms(5) by (simp add: post_v1_not_running [OF assms(1-4)])
  have "fst (get_v1 sv req (snd (post_v1 sv req uuid w))) = fst (get_v1 sv req w)"
    if "getDigest ds (uid c) = getDigest (store w) (uid c)"
    using that by (simp add: p get_v1_found [OF assms(1-3)] split: option.splits)
  with p show ?thesis by simp
qed

theorem post_v1_accepted_witness:
  "getClaimsByToken exampleServices (getTokenByRequest submitEn) = Inr (Some \<lparr>uid = ''u1''\<rparr>) \<and>
   findActiveUser exampleServices ''u1'' = Inr (Some ()) \<and>
   findGrantedFeatureByName exampleServices AIDigest ''u1'' = Inr (Some ()) \<and>
   map_option jobState (getDigest (store pendingWorld) ''u1'') \<noteq> Some Running \<and>
   enqueueCreateDigest exampleServices (fst (submitEnJob ''job-2'')) None (store pendingWorld) =
     (Inr (JObj [(''id'', JStr ''job-2''), (''state'', JStr ''Pending'')]), store pendingWorld) \<and>
   post_v1 exampleServices submitEn ''job-2'' pendingWorld =
     (Send 201 (Json (JObj [(''id'', JStr ''job-2''), (''state'', JStr ''Pending'')])),
      pendingWorld\<lparr>enqueued := [submitEnJob ''job-2'']\<rparr>) \<and>
   fst (get_v1 exampleServices submitEn (snd (post_v1 exampleServices submitEn ''job-2'' pendingWorld))) =
     fst (get_v1 exampleServices submitEn pendingWorld)"
proof -
  have n: "map_option jobState (getDigest (store pendingWorld) (uid \<lparr>uid = ''u1''\<rparr>)) \<noteq> Some Running"
    by (simp add: example_not_running)
  have j: "spread [(''id'', JStr ''job-2''), (''userId'', JStr (uid \<lparr>uid = ''u1''\<rparr>))] (body submitEn)
             = fst (submitEnJob ''job-2'')"
    "map_of (body submitEn) ''schedule'' = None"
    by (simp_all add: spread_def submitEnJob_def example_defs)
  have q: "enqueueCreateDigest exampleServices
             (spread [(''id'', JStr ''job-2''), (''userId'', JStr (uid \<lparr>uid = ''u1''\<rparr>))] (body submitEn))
             (map_of (body submitEn) ''schedule'') (store pendingWorld) =
           (Inr (JObj [(''id'', JStr ''job-2''), (''state'', JStr ''Pending'')]), store pendingWorld)"
    by (simp add: example_defs submitEnJob_def spread_def)
  have e: "enqueued pendingWorld = []" "pendingWorld\<lparr>store := store pendingWorld\<rparr> = pendingWorld"
    by (simp_all add: example_defs)
  note r = post_v1_accepted [OF example_auth n q]
  have a: "post_v1 exampleServices submitEn ''job-2'' pendingWorld =
     (Send 201 (Json (JObj [(''id'', JStr ''job-2''), (''state'', JStr ''Pending'')])),
      pendingWorld\<lparr>enqueued := [submitEnJob ''job-2'']\<rparr>)"
    using conjunct1 [OF r] j e by (simp add: submitEnJob_def)
  have b: "fst (get_v1 exampleServices submitEn
                 (snd (post_v1 exampleServices submitEn ''job-2'' pendingWorld))) =
           fst (get_v1 exampleServices submitEn pendingWorld)"
    using conjunct2 [OF r] by simp
  have q': "enqueueCreateDigest exampleServices (fst (submitEnJob ''job-2'')) None
              (store pendingWorld) =
            (Inr (JObj [(''id'', JStr ''job-2''), (''state'', JStr ''Pending'')]),
             store pendingWorld)"
    using q j by simp
  have n': "map_option jobState (getDigest (store pendingWorld) ''u1'') \<noteq> Some Running"
    using n by simp
  have c: "getClaimsByToken exampleServices (getTokenByRequest submitEn) = Inr (Some \<lparr>uid = ''u1''\<rparr>)"
    "findActiveUser exampleServices ''u1'' = Inr (Some ())"
    "findGrantedFeatureByName exampleServices AIDigest ''u1'' = Inr (Some ())"
    using example_auth by simp_all
  show ?thesis
    by (intro conjI) (fact c n' q' a b)+
qed


subsection \<open>Feedback\<close>

lemmas feedback_defs = requiredRatings_def ratings_def feedbackWithComment_def
  feedbackOtherComment_def feedbackNoMusic_def feedbackOddTypes_def ratingsEvent_def
  throwingAnalytics_def

lemma keys_spread: "fst ` set (spread obj src) = fst ` set obj \<union> fst ` set src"
  unfolding spread_def
proof (induction src arbitrary: obj)
  case Nil
  show ?case by simp
next
  case (Cons p src)
  obtain k v where p: "p = (k, v)"
    by (cases p)
  have "fst ` set (fold (\<lambda>(k, v). AList.update k v) (p # src) obj) =
        fst ` set (AList.update k v obj) \<union> fst ` set src"
    by (simp add: p Cons.IH)
  also have "\<dots> = fst ` set obj \<union> fst ` set (p # src)"
    by (auto simp: dom_update p)
  finally show ?case .
qed

lemma has_property_delete:
  "has_property k (AList.delete c obj) = (k \<noteq> c \<and> has_property k obj)"
  by (auto simp: has_property_def delete_keys)

lemma isFeedback_delete_comment: "isFeedback (AList.delete ''comment'' obj) = isFeedback obj"
  by (simp add: isFeedback_def has_property_delete)

lemma isFeedback_requiredRatings:
  "isFeedback obj = (\<forall>k \<in> set requiredRatings. has_property k obj)"
  by (simp add: isFeedback_def requiredRatings_def)

lemma post_v1_feedback_checked:
  assumes "getClaimsByToken sv (getTokenByRequest req) = Inr (Some c)"
    and "findActiveUser sv (uid c) = Inr (Some user)"
    and "findGrantedFeatureByName sv AIDigest (uid c) = Inr (Some feature)"
  shows "post_v1_feedback sv req w =
           (if isFeedback (body req)
            then (if capture sv (digest_feedback (uid c) (AList.delete ''comment'' (body req))
                                   (apiEnv sv)) = Inr ()
                  then SendStatus 200 else SendStatus 500,
                  w\<lparr>captured := captured w @
                      [digest_feedback (uid c) (AList.delete ''comment'' (body req))
                         (apiEnv sv)]\<rparr>)
            else (SendStatus 400, w))"
  using assms
  by (simp add: post_v1_feedback_def analytics_capture_def Let_def split: sum.splits)

lemma no_comment_forwarded:
  "\<not> has_property ''comment''
       (properties (digest_feedback userId (AList.delete ''comment'' obj) v))"
  by (simp add: digest_feedback_def has_property_def dom_update keys_spread delete_notin_dom)

lemma feedback_auth:
  "getClaimsByToken exampleServices (getTokenByRequest feedbackNoMusic) = Inr (Some \<lparr>uid = ''u1''\<rparr>)"
  "getClaimsByToken exampleServices (getTokenByRequest feedbackOddTypes) = Inr (Some \<lparr>uid = ''u1''\<rparr>)"
  "getClaimsByToken exampleServices (getTokenByRequest feedbackWithComment) = Inr (Some \<lparr>uid = ''u1''\<rparr>)"
  by (simp_all add: exampleServices_def getTokenByRequest_def feedback_defs)

lemma throwing_auth:
  "getClaimsByToken throwingAnalytics (getTokenByRequest feedbackWithComment) = Inr (Some \<lparr>uid = ''u1''\<rparr>)"
  "findActiveUser throwingAnalytics (uid \<lparr>uid = ''u1''\<rparr>) = Inr (Some ())"
  "findGrantedFeatureByName throwingAnalytics AIDigest (uid \<lparr>uid = ''u1''\<rparr>) = Inr (Some ())"
  by (simp_all add: exampleServices_def getTokenByRequest_def feedback_defs)

lemma feedback_event_example:
  "digest_feedback ''u1'' (AList.delete ''comment'' (body feedbackWithComment))
     (apiEnv exampleServices) = ratingsEvent"
  "digest_feedback ''u1'' (AList.delete ''comment'' (body feedbackWithComment))
     (apiEnv throwingAnalytics) = ratingsEvent"
  by (simp_all add: digest_feedback_def feedback_defs exampleServices_def spread_def)

lemma feedback_examples:
  "isFeedback (body feedbackWithComment)"
  "has_property ''comment'' (body feedbackWithComment)"
  "\<not> has_property ''comment'' (properties ratingsEvent)"
  "body feedbackOtherComment \<noteq> body feedbackWithComment"
  "capture exampleServices ratingsEvent = Inr ()"
  "capture throwingAnalytics ratingsEvent = Inl (Error ''capture failed'')"
  by (simp_all add: feedback_defs isFeedback_def has_property_def exampleServices_def)

text \<open>
  Claim C7.  For a caller who passes the checks, a feedback payload that lacks any of
  the five required rating fields is answered 400 and the state is left as it is, so
  the analytics collaborator is not called; a payload that has the five fields is
  answered 200, whatever their values are, when the call of \<^verbatim>\<open>analytics.capture\<close>
  returns: presence is the only condition on the shape.
\<close>

theorem feedback_requires_ratings:
  assumes "getClaimsByToken sv (getTokenByRequest req) = Inr (Some c)"
    and "findActiveUser sv (uid c) = Inr (Some user)"
    and "findGrantedFeatureByName sv AIDigest (uid c) = Inr (Some feature)"
  shows "((\<exists>k \<in> set requiredRatings. \<not> has_property k (body req))
          \<longrightarrow> post_v1_feedback sv req w = (SendStatus 400, w)) \<and>
         ((\<forall>k \<in> set requiredRatings. has_property k (body req)) \<and>
          capture sv (digest_feedback (uid c) (AList.delete ''comment'' (body req)) (apiEnv sv))
            = Inr ()
          \<longrightarrow> fst (post_v1_feedback sv req w) = SendStatus 200)"
  by (simp add: post_v1_feedback_checked [OF assms] isFeedback_requiredRatings)

theorem feedback_requires_ratings_witness:
  "getClaimsByToken exampleServices (getTokenByRequest feedbackNoMusic) = Inr (Some \<lparr>uid = ''u1''\<rparr>) \<and>
   getClaimsByToken exampleServices (getTokenByRequest feedbackOddTypes) = Inr (Some \<lparr>uid = ''u1''\<rparr>) \<and>
   findActiveUser exampleServices ''u1'' = Inr (Some ()) \<and>
   findGrantedFeatureByName exampleServices AIDigest ''u1'' = Inr (Some ()) \<and>
   ''musicRating'' \<in> set requiredRatings \<and>
   \<not> has_property ''musicRating'' (body feedbackNoMusic) \<and>
   post_v1_feedback exampleServices feedbackNoMusic exampleWorld = (SendStatus 400, exampleWorld) \<and>
   has_property ''digestRating'' (body feedbackOddTypes) \<and>
   has_property ''rankingRating'' (body feedbackOddTypes) \<and>
   has_property ''summaryRating'' (body feedbackOddTypes) \<and>
   has_property ''voiceRating'' (body feedbackOddTypes) \<and>
   has_property ''musicRating'' (body feedbackOddTypes) \<and>
   capture exampleServices
     (digest_feedback ''u1'' (AList.delete ''comment'' (body feedbackOddTypes))
        (apiEnv exampleServices)) = Inr () \<and>
   fst (post_v1_feedback exampleServices feedbackOddTypes exampleWorld) = SendStatus 200"
proof -
  have m: "''musicRating'' \<in> set requiredRatings"
    "\<not> has_property ''musicRating'' (body feedbackNoMusic)"
    by (simp_all add: feedback_defs has_property_def)
  have o: "has_property ''digestRating'' (body feedbackOddTypes)"
    "has_property ''rankingRating'' (body feedbackOddTypes)"
    "has_property ''summaryRating'' (body feedbackOddTypes)"
    "has_property ''voiceRating'' (body feedbackOddTypes)"
    "has_property ''musicRating'' (body feedbackOddTypes)"
    by (simp_all add: feedback_defs has_property_def)
  have k: "capture exampleServices
             (digest_feedback ''u1'' (AList.delete ''comment'' (body feedbackOddTypes))
                (apiEnv exampleServices)) = Inr ()"
    by (simp add: exampleServices_def)
  note r = feedback_requires_ratings [OF feedback_auth(1) example_auth(2,3), of exampleWorld]
  note s = feedback_requires_ratings [OF feedback_auth(2) example_auth(2,3), of exampleWorld]
  have a: "post_v1_feedback exampleServices feedbackNoMusic exampleWorld = (SendStatus 400, exampleWorld)"
    using conjunct1 [OF r] m by blast
  have b: "fst (post_v1_feedback exampleServices feedbackOddTypes exampleWorld) = SendStatus 200"
    using conjunct2 [OF s] o k by (simp add: requiredRatings_def)
  have c: "findActiveUser exampleServices ''u1'' = Inr (Some ())"
    "findGrantedFeatureByName exampleServices AIDigest ''u1'' = Inr (Some ())"
    using example_auth by simp_all
  show ?thesis
    by (intro conjI) (fact feedback_auth c m a o k b)+
qed

text \<open>
  Claim C8, as stated: an accepted feedback hands the analytics collaborator an event
  without comment, the same for two payloads that differ only in their comment, and is
  answered 200 regardless of the outcome of the analytics forward.  The last part fails
  when the call of \<^verbatim>\<open>analytics.capture\<close> itself throws: the call stands inside the
  \<^verbatim>\<open>try\<close>, so the error is caught and the valid payload of an entitled caller is
  answered 500.
\<close>

theorem capture_throws_counterexample:
  "getClaimsByToken throwingAnalytics (getTokenByRequest feedbackWithComment) =
     Inr (Some \<lparr>uid = ''u1''\<rparr>) \<and>
   findActiveUser throwingAnalytics ''u1'' = Inr (Some ()) \<and>
   findGrantedFeatureByName throwingAnalytics AIDigest ''u1'' = Inr (Some ()) \<and>
   isFeedback (body feedbackWithComment) \<and>
   capture throwingAnalytics ratingsEvent = Inl (Error ''capture failed'') \<and>
   post_v1_feedback throwingAnalytics feedbackWithComment exampleWorld =
     (SendStatus 500, exampleWorld\<lparr>captured := [ratingsEvent]\<rparr>)"
proof -
  have p: "post_v1_feedback throwingAnalytics feedbackWithComment exampleWorld =
             (SendStatus 500, exampleWorld\<lparr>captured := [ratingsEvent]\<rparr>)"
    by (simp add: post_v1_feedback_checked [OF throwing_auth] feedback_examples
        feedback_event_example)
       (simp add: exampleWorld_def)
  have c: "findActiveUser throwingAnalytics ''u1'' = Inr (Some ())"
    "findGrantedFeatureByName throwingAnalytics AIDigest ''u1'' = Inr (Some ())"
    using throwing_auth by simp_all
  show ?thesis
    by (intro conjI) (fact throwing_auth(1) c feedback_examples p)+
qed

text \<open>
  Claim C8, amended.  For a caller who passes the checks and a payload with the five
  rating fields, \<^verbatim>\<open>POST /v1/feedback\<close> hands the analytics collaborator one event, for
  the user and under the fixed name, whose properties have no comment field; two
  payloads of the same caller that differ only in their comment hand over the same
  event and get the same answer.  The answer is 200 whenever the call of
  \<^verbatim>\<open>analytics.capture\<close> returns, and nothing that becomes of the event afterwards can
  change it, since the call is not awaited; it is 500 when the call throws.
\<close>

theorem feedback_comment_stripped:
  assumes "getClaimsByToken sv (getTokenByRequest req) = Inr (Some c)"
    and "findActiveUser sv (uid c) = Inr (Some user)"
    and "findGrantedFeatureByName sv AIDigest (uid c) = Inr (Some feature)"
    and "isFeedback (body req)"
  shows "post_v1_feedback sv req w =
           (if capture sv (digest_feedback (uid c) (AList.delete ''comment'' (body req))
                             (apiEnv sv)) = Inr ()
            then SendStatus 200 else SendStatus 500,
            w\<lparr>captured := captured w @
                [digest_feedback (uid c) (AList.delete ''comment'' (body req)) (apiEnv sv)]\<rparr>) \<and>
         \<not> has_property ''comment''
             (properties (digest_feedback (uid c) (AList.delete ''comment'' (body req))
                            (apiEnv sv))) \<and>
         distinctId (digest_feedback (uid c) (AList.delete ''comment'' (body req)) (apiEnv sv))
           = uid c \<and>
         event (digest_feedback (uid c) (AList.delete ''comment'' (body req)) (apiEnv sv))
           = ''digest_feedback'' \<and>
         (token req' = token req \<and>
          AList.delete ''comment'' (body req') = AList.delete ''comment'' (body req)
          \<longrightarrow> post_v1_feedback sv req' w = post_v1_feedback sv req w)"
proof (intro conjI impI)
  show "post_v1_feedback sv req w =
           (if capture sv (digest_feedback (uid c) (AList.delete ''comment'' (body req))
                             (apiEnv sv)) = Inr ()
            then SendStatus 200 else SendStatus 500,
            w\<lparr>captured := captured w @
                [digest_feedback (uid c) (AList.delete ''comment'' (body req)) (apiEnv sv)]\<rparr>)"
    using assms(4) by (simp add: post_v1_feedback_checked [OF assms(1-3)])
next
  show "\<not> has_property ''comment''
             (properties (digest_feedback (uid c) (AList.delete ''comment'' (body req))
                            (apiEnv sv)))"
    by (rule no_comment_forwarded)
next
  show "distinctId (digest_feedback (uid c) (AList.delete ''comment'' (body req)) (apiEnv sv))
           = uid c"
    by (simp add: digest_feedback_def)
next
  show "event (digest_feedback (uid c) (AList.delete ''comment'' (body req)) (apiEnv sv))
           = ''digest_feedback''"
    by (simp add: digest_feedback_def)
next
  assume h: "token req' = token req \<and>
             AList.delete ''comment'' (body req') = AList.delete ''comment'' (body req)"
  then have "isFeedback (body req') = isFeedback (body req)"
    by (metis isFeedback_delete_comment)
  moreover have "getClaimsByToken sv (getTokenByRequest req') = Inr (Some c)"
    using h assms(1) by (simp add: getTokenByRequest_def)
  ultimately show "post_v1_feedback sv req' w = post_v1_feedback sv req w"
    using h
    by (simp add: post_v1_feedback_checked [OF assms(1-3)]
        post_v1_feedback_checked [OF _ assms(2,3)])
qed

theorem feedback_comment_stripped_witness:
  "getClaimsByToken exampleServices (getTokenByRequest feedbackWithComment) = Inr (Some \<lparr>uid = ''u1''\<rparr>) \<and>
   findActiveUser exampleServices ''u1'' = Inr (Some ()) \<and>
   findGrantedFeatureByName exampleServices AIDigest ''u1'' = Inr (Some ()) \<and>
   isFeedback (body feedbackWithComment) \<and>
   has_property ''comment'' (body feedbackWithComment) \<and>
   capture exampleServices ratingsEvent = Inr () \<and>
   post_v1_feedback exampleServices feedbackWithComment exampleWorld =
     (SendStatus 200, exampleWorld\<lparr>captured := [ratingsEvent]\<rparr>) \<and>
   \<not> has_property ''comment'' (properties ratingsEvent) \<and>
   body feedbackOtherComment \<noteq> body feedbackWithComment \<and>
   post_v1_feedback exampleServices feedbackOtherComment exampleWorld =
     post_v1_feedback exampleServices feedbackWithComment exampleWorld"
proof -
  have d: "token feedbackOtherComment = token feedbackWithComment \<and>
           AList.delete ''comment'' (body feedbackOtherComment) =
           AList.delete ''comment'' (body feedbackWithComment)"
    by (simp add: feedback_defs)
  note r = feedback_comment_stripped [OF feedback_auth(3) example_auth(2,3) feedback_examples(1),
      of exampleWorld feedbackOtherComment]
  have p: "post_v1_feedback exampleServices feedbackWithComment exampleWorld =
             (SendStatus 200, exampleWorld\<lparr>captured := [ratingsEvent]\<rparr>)"
    using conjunct1 [OF r] feedback_examples(5)
    by (simp add: feedback_event_example) (simp add: exampleWorld_def)
  have a: "post_v1_feedback exampleServices feedbackOtherComment exampleWorld =
             post_v1_feedback exampleServices feedbackWithComment exampleWorld"
    using conjunct2 [OF conjunct2 [OF conjunct2 [OF conjunct2 [OF r]]]] d by blast
  have c: "findActiveUser exampleServices ''u1'' = Inr (Some ())"
    "findGrantedFeatureByName exampleServices AIDigest ''u1'' = Inr (Some ())"
    using example_auth by simp_all
  show ?thesis
    by (intro conjI) (fact feedback_auth c feedback_examples p a)+
qed

section \<open>Properties of the usage limit plugin\<close>

lemmas plugin_defs = replyRequest_def aliasRequest_def notSent_def notSentUnderAlias_def
  freshDay_def

text \<open>
  What the plugin does for a request with a user id and the name of the action in its
  query.  At the limit of 3, counted for that user and action, the request is rejected
  before the operation is executed and nothing changes.
\<close>

lemma handle_request_at_limit:
  assumes "claims request = Some c" and "uid c \<noteq> []"
    and "query request = Some q" and "includes' q ''replyToEmail''"
    and "3 \<le> countDailyServiceUsage (ledger st) (uid c) ''replyToEmail''"
  shows "handle_request execute request st =
           (Inl (Error ''You have reached the daily email limit''), st)"
  using assms
  by (simp add: handle_request_def requestDidStart_def action_def MAX_SENT_EMAIL_PER_DAY_def)

text \<open>
  Below the limit the operation is executed, and \<^verbatim>\<open>createServiceUsage\<close> is applied, for
  that user and action, exactly when the response has no \<^verbatim>\<open>errors\<close> and no error codes
  under \<^verbatim>\<open>data.replyToEmail\<close>.
\<close>

lemma handle_request_below_limit:
  assumes "claims request = Some c" and "uid c \<noteq> []"
    and "query request = Some q" and "includes' q ''replyToEmail''"
    and "countDailyServiceUsage (ledger st) (uid c) ''replyToEmail'' < 3"
  shows "handle_request execute request st =
           (Inr (execute request),
            \<lparr>ledger =
               (if errors (execute request) = None \<and>
                   \<not> truthy (optional_property
                               (optional_property (data (execute request)) ''replyToEmail'')
                               ''errorCodes'')
                then createServiceUsage (uid c) ''replyToEmail'' (ledger st)
                else ledger st),
             executed = executed st @ [request]\<rparr>)"
  using assms
  by (simp add: handle_request_def requestDidStart_def willSendResponse_def action_def
      MAX_SENT_EMAIL_PER_DAY_def Let_def)

lemma countDailyServiceUsage_createServiceUsage:
  "countDailyServiceUsage (createServiceUsage u a l) u a = Suc (countDailyServiceUsage l u a)"
  by (simp add: countDailyServiceUsage_def createServiceUsage_def)

lemma plugin_examples:
  "claims aliasRequest = Some \<lparr>uid = ''u1''\<rparr>"
  "uid \<lparr>uid = ''u1''\<rparr> \<noteq> []"
  "query aliasRequest =
     Some ''mutation { r: replyToEmail(input: $input) { ... on ReplyToEmailError { errorCodes } } }''"
  "includes'
     ''mutation { r: replyToEmail(input: $input) { ... on ReplyToEmailError { errorCodes } } }''
     ''replyToEmail''"
  "countDailyServiceUsage (ledger freshDay) (uid \<lparr>uid = ''u1''\<rparr>) ''replyToEmail'' < 3"
  by (simp_all add: plugin_defs countDailyServiceUsage_def)

lemma plugin_examples_unaliased:
  "claims replyRequest = Some \<lparr>uid = ''u1''\<rparr>"
  "uid \<lparr>uid = ''u1''\<rparr> \<noteq> []"
  "query replyRequest =
     Some ''mutation { replyToEmail(input: $input) { ... on ReplyToEmailError { errorCodes } } }''"
  "includes'
     ''mutation { replyToEmail(input: $input) { ... on ReplyToEmailError { errorCodes } } }''
     ''replyToEmail''"
  "countDailyServiceUsage (ledger freshDay) (uid \<lparr>uid = ''u1''\<rparr>) ''replyToEmail'' < 3"
  by (simp_all add: plugin_defs countDailyServiceUsage_def)

text \<open>
  Claim C6 says that the usage of the quota-gated action is recorded only after the
  action completed without errors, never for a request whose execution failed; the
  comment of the plugin says it too (the count is incremented if the request was
  successful).  The code breaks this for a reply sent under an alias.  The result of
  \<^verbatim>\<open>r: replyToEmail(...)\<close> comes back under the key \<open>r\<close>, so when the reply fails its
  error codes are at \<^verbatim>\<open>data.r.errorCodes\<close>; the plugin looks under
  \<^verbatim>\<open>data.replyToEmail\<close>, finds none, and applies \<^verbatim>\<open>createServiceUsage\<close>.  Here user
  \<open>u1\<close>, with no reply counted on the day, sends one that fails: the request is let
  through, the response carries the error codes, and the count of the user is 1
  afterwards.  The same failure under the name of the field itself is not counted.
\<close>

theorem usage_recorded_for_failed_reply:
  "claims aliasRequest = Some \<lparr>uid = ''u1''\<rparr> \<and>
   countDailyServiceUsage (ledger freshDay) ''u1'' ''replyToEmail'' = 0 \<and>
   errors (notSentUnderAlias aliasRequest) = None \<and>
   optional_property (optional_property (data (notSentUnderAlias aliasRequest)) ''r'')
     ''errorCodes'' = Some (JArr [JStr ''FAILED'']) \<and>
   handle_request notSentUnderAlias aliasRequest freshDay =
     (Inr (notSentUnderAlias aliasRequest),
      \<lparr>ledger = createServiceUsage ''u1'' ''replyToEmail'' (ledger freshDay),
       executed = [aliasRequest]\<rparr>) \<and>
   countDailyServiceUsage (createServiceUsage ''u1'' ''replyToEmail'' (ledger freshDay))
     ''u1'' ''replyToEmail'' = 1 \<and>
   handle_request notSent replyRequest freshDay =
     (Inr (notSent replyRequest), \<lparr>ledger = ledger freshDay, executed = [replyRequest]\<rparr>)"
proof -
  have a: "claims aliasRequest = Some \<lparr>uid = ''u1''\<rparr>"
    "countDailyServiceUsage (ledger freshDay) ''u1'' ''replyToEmail'' = 0"
    "errors (notSentUnderAlias aliasRequest) = None"
    "optional_property (optional_property (data (notSentUnderAlias aliasRequest)) ''r'')
       ''errorCodes'' = Some (JArr [JStr ''FAILED''])"
    by (simp_all add: plugin_defs countDailyServiceUsage_def)
  have h: "handle_request notSentUnderAlias aliasRequest freshDay =
     (Inr (notSentUnderAlias aliasRequest),
      \<lparr>ledger = createServiceUsage ''u1'' ''replyToEmail'' (ledger freshDay),
       executed = [aliasRequest]\<rparr>)"
    by (simp add: handle_request_below_limit [OF plugin_examples])
       (simp add: notSentUnderAlias_def freshDay_def)
  have n: "countDailyServiceUsage (createServiceUsage ''u1'' ''replyToEmail'' (ledger freshDay))
     ''u1'' ''replyToEmail'' = 1"
    using a(2) by (simp add: countDailyServiceUsage_createServiceUsage)
  have u: "handle_request notSent replyRequest freshDay =
     (Inr (notSent replyRequest), \<lparr>ledger = ledger freshDay, executed = [replyRequest]\<rparr>)"
    by (simp add: handle_request_below_limit [OF plugin_examples_unaliased])
       (simp add: notSent_def freshDay_def)
  show ?thesis
    by (intro conjI) (fact a h n u)+
qed

section \<open>Properties of the mobile client\<close>

lemma fetchViewer_success:
  "fetchViewer (success u) self_alive saves dev = (Inr v, dev') \<Longrightarrow>
     v = Some (selection u) \<and>
     viewers dev' = viewers dev @
       [\<lparr>Viewer.userID = User.id' u, Viewer.username = User.username u,
         Viewer.name = User.name u, Viewer.profileImageURL = pictureUrl u,
         Viewer.digestEnabled = True\<rparr>]"
  by (auto simp: fetchViewer_def persist_def selection_def Let_def
           split: if_splits option.splits sum.splits)

text \<open>
  Claim C10.  Every successful \<^verbatim>\<open>fetchViewer\<close> returns a \<^verbatim>\<open>ViewerInternal\<close> whose
  \<^verbatim>\<open>digestEnabled\<close> is true and has saved a \<^verbatim>\<open>Viewer\<close> whose \<^verbatim>\<open>digestEnabled\<close> is
  true; the feature list the server reports for the account has no influence on the
  result.
\<close>

theorem fetchViewer_digestEnabled:
  "(fetchViewer (success u) self_alive saves dev = (Inr v, dev')
    \<longrightarrow> (\<exists>payload viewer.
           v = Some payload \<and> ViewerInternal.digestEnabled payload = Some True \<and>
           viewers dev' = viewers dev @ [viewer] \<and> Viewer.digestEnabled viewer = True)) \<and>
   fetchViewer (success (u\<lparr>featureList := features\<rparr>)) self_alive saves dev =
     fetchViewer (success u) self_alive saves dev"
proof (intro conjI impI)
  assume "fetchViewer (success u) self_alive saves dev = (Inr v, dev')"
  from fetchViewer_success [OF this]
  show "\<exists>payload viewer.
           v = Some payload \<and> ViewerInternal.digestEnabled payload = Some True \<and>
           viewers dev' = viewers dev @ [viewer] \<and> Viewer.digestEnabled viewer = True"
    by (auto simp: selection_def)
next
  show "fetchViewer (success (u\<lparr>featureList := features\<rparr>)) self_alive saves dev =
          fetchViewer (success u) self_alive saves dev"
    by (simp add: fetchViewer_def selection_def)
qed

theorem fetchViewer_digestEnabled_witness:
  "featureList account = Some [\<lparr>Feature.name = ''digest'', enabled = False\<rparr>] \<and>
   fetchViewer (success account) True True newDevice = (Inr (Some accountViewer), savedDevice) \<and>
   ViewerInternal.digestEnabled accountViewer = Some True \<and>
   Viewer.digestEnabled (last (viewers savedDevice)) = True"
proof -
  have f: "fetchViewer (success account) True True newDevice = (Inr (Some accountViewer), savedDevice)"
    by (simp add: fetchViewer_def persist_def selection_def account_def newDevice_def
        accountViewer_def savedDevice_def)
  have l: "featureList account = Some [\<lparr>Feature.name = ''digest'', enabled = False\<rparr>]"
    by (simp add: account_def)
  from conjunct1 [OF fetchViewer_digestEnabled
      [of account True True newDevice "Some accountViewer" savedDevice]] f
  obtain payload viewer where
    "Some accountViewer = Some payload" "ViewerInternal.digestEnabled payload = Some True"
    "viewers savedDevice = viewers newDevice @ [viewer]" "Viewer.digestEnabled viewer = True"
    by blast
  then have "ViewerInternal.digestEnabled accountViewer = Some True"
    "Viewer.digestEnabled (last (viewers savedDevice)) = True"
    by simp_all
  with f l show ?thesis
    by simp
qed


end
